theory Spec2Isabelle
  imports Complex_Main
begin

section \<open>Procedural grass: terrain height model\<close>

text \<open>
  Source: \<^verbatim>\<open>src/components/3D/grass-component/grass.tsx\<close>.
  JavaScript numbers are modelled as real numbers: every arithmetic operation is the exact
  one, so rounding, overflow, \<^verbatim>\<open>Infinity\<close> and \<^verbatim>\<open>NaN\<close> are outside the model.  The
  only place of the terrain code where a non-finite value can arise from finite input is
  the division by a zero component of \<^verbatim>\<open>asymmetry\<close>; theorems about hills therefore
  assume both components to be non-zero.

  A height sample is the four-element array \<^verbatim>\<open>[height, nx, ny, nz]\<close>.
\<close>

type_synonym HeightSample = "real \<times> real \<times> real \<times> real"

type_synonym HeightField = "real \<Rightarrow> real \<Rightarrow> HeightSample"

text \<open>
  \<^verbatim>\<open>HillConfig\<close> after the merge \<^verbatim>\<open>{ ...DEFAULT_HILL, ...config }\<close>: a caller's partial
  configuration is a record update of \<open>DEFAULT_HILL\<close>.
\<close>

record HillConfig =
  centerX :: real
  centerZ :: real
  radius :: real
  height :: real
  roundness :: real
  plateau :: real
  skirt :: real
  asymmetry :: "real \<times> real"
  rotation :: real
  ridge :: real
  ridgeDirection :: real

definition DEFAULT_HILL :: HillConfig where
  "DEFAULT_HILL =
     \<lparr> centerX = 0, centerZ = 0, radius = 10, height = 3, roundness = 2, plateau = 0,
       skirt = 0, asymmetry = (1, 1), rotation = 0, ridge = 0, ridgeDirection = 0 \<rparr>"

definition createFlatTerrain :: HeightField where
  "createFlatTerrain = (\<lambda>x z. (0, 0, 1, 0))"

text \<open>
  The local helper \<^verbatim>\<open>getHeight\<close> of \<^verbatim>\<open>createHillTerrain\<close>, with the captured
  configuration as its first argument.  \<^verbatim>\<open>Math.pow\<close> is only reached with a base in
  \<open>(0, 1]\<close> (lemma \<open>hill_pow_base\<close> below), where it is \<open>powr\<close>.
\<close>

definition getHeight :: "HillConfig \<Rightarrow> real \<Rightarrow> real \<Rightarrow> real" where
  "getHeight c px pz =
     (let cosRot = cos (- rotation c);
          sinRot = sin (- rotation c);
          cosRidge = cos (- ridgeDirection c);
          sinRidge = sin (- ridgeDirection c);
          ldx = px - centerX c;
          ldz = pz - centerZ c;
          lrdx = ldx * cosRot - ldz * sinRot;
          lrdz = ldx * sinRot + ldz * cosRot;
          ladx = lrdx / fst (asymmetry c);
          ladz = lrdz / snd (asymmetry c);
          ldist = sqrt (ladx * ladx + ladz * ladz)
      in if ldist \<ge> radius c then 0
         else
           let lt0 = ldist / radius c;
               lt = (if plateau c > 0 \<and> lt0 < plateau c then 0
                     else if plateau c > 0 then (lt0 - plateau c) / (1 - plateau c)
                     else lt0);
               lridgeFactor =
                 (if ridge c > 0
                  then 1 - ridge c * (1 - exp (- \<bar>ladx * cosRidge - ladz * sinRidge\<bar> * 2))
                  else 1)
           in height c * (1 - lt) powr roundness c * lridgeFactor)"

definition createHillTerrain :: "HillConfig \<Rightarrow> HeightField" where
  "createHillTerrain c x z =
     (let cosRot = cos (- rotation c);
          sinRot = sin (- rotation c);
          cosRidge = cos (- ridgeDirection c);
          sinRidge = sin (- ridgeDirection c);
          dx = x - centerX c;
          dz = z - centerZ c;
          rdx = dx * cosRot - dz * sinRot;
          rdz = dx * sinRot + dz * cosRot;
          adx = rdx / fst (asymmetry c);
          adz = rdz / snd (asymmetry c);
          dist = sqrt (adx * adx + adz * adz);
          effectiveRadius = radius c + skirt c
      in if dist \<ge> effectiveRadius then (0, 0, 1, 0)
         else if dist \<ge> radius c then (0, 0, 1, 0)
         else
           let t0 = dist / radius c;
               t = (if plateau c > 0 \<and> t0 < plateau c then 0
                    else if plateau c > 0 then (t0 - plateau c) / (1 - plateau c)
                    else t0);
               ridgeFactor =
                 (if ridge c > 0
                  then 1 - ridge c * (1 - exp (- \<bar>adx * cosRidge - adz * sinRidge\<bar> * 2))
                  else 1);
               factor = (1 - t) powr roundness c * ridgeFactor;
               y = height c * factor;
               eps = 1 / 100;
               dhdx = (getHeight c (x + eps) z - getHeight c (x - eps) z) / (2 * eps);
               dhdz = (getHeight c x (z + eps) - getHeight c x (z - eps)) / (2 * eps);
               len = sqrt (dhdx * dhdx + 1 + dhdz * dhdz)
           in (y, - dhdx / len, 1 / len, - dhdz / len))"

text \<open>
  \<^verbatim>\<open>combineTerrains\<close>: the \<^verbatim>\<open>for ... of\<close> loop over the child fields, with the three
  accumulators \<^verbatim>\<open>totalY\<close>, \<^verbatim>\<open>totalNx\<close>, \<^verbatim>\<open>totalNz\<close> as the loop state.
\<close>

fun combineLoop :: "HeightField list \<Rightarrow> real \<Rightarrow> real \<Rightarrow> real \<times> real \<times> real \<Rightarrow> real \<times> real \<times> real"
  where
  "combineLoop [] x z acc = acc"
| "combineLoop (terrain # terrains) x z (totalY, totalNx, totalNz) =
     (case terrain x z of
        (y, nx, ny, nz) \<Rightarrow> combineLoop terrains x z (totalY + y, totalNx + nx, totalNz + nz))"

definition combineTerrains :: "HeightField list \<Rightarrow> HeightField" where
  "combineTerrains terrains x z =
     (case combineLoop terrains x z (0, 0, 0) of
        (totalY, totalNx, totalNz) \<Rightarrow>
          let len = sqrt (totalNx * totalNx + 1 + totalNz * totalNz)
          in (totalY, totalNx / len, 1 / len, totalNz / len))"

text \<open>Projections of a sample, and the squared length of its normal.\<close>

definition sampleHeight :: "HeightSample \<Rightarrow> real" where
  "sampleHeight s = fst s"

definition sampleNormal :: "HeightSample \<Rightarrow> real \<times> real \<times> real" where
  "sampleNormal s = snd s"

definition lengthSq :: "real \<times> real \<times> real \<Rightarrow> real" where
  "lengthSq v = (case v of (x, y, z) \<Rightarrow> x * x + y * y + z * z)"

text \<open>
  The hill-local, anisotropically scaled radial distance \<^verbatim>\<open>dist\<close> of a ground
  coordinate, as \<^verbatim>\<open>createHillTerrain\<close> computes it.
\<close>

definition hillDist :: "HillConfig \<Rightarrow> real \<Rightarrow> real \<Rightarrow> real" where
  "hillDist c x z =
     (let dx = x - centerX c;
          dz = z - centerZ c;
          rdx = dx * cos (- rotation c) - dz * sin (- rotation c);
          rdz = dx * sin (- rotation c) + dz * cos (- rotation c);
          adx = rdx / fst (asymmetry c);
          adz = rdz / snd (asymmetry c)
      in sqrt (adx * adx + adz * adz))"

definition nonzeroAsymmetry :: "HillConfig \<Rightarrow> bool" where
  "nonzeroAsymmetry c = (fst (asymmetry c) \<noteq> 0 \<and> snd (asymmetry c) \<noteq> 0)"


text \<open>
  The height of a hill as a function of the radial distance alone, as both
  \<^verbatim>\<open>createHillTerrain\<close> and \<^verbatim>\<open>getHeight\<close> compute it when there is no ridge.
\<close>

definition plateauRemap :: "real \<Rightarrow> real \<Rightarrow> real" where
  "plateauRemap p t0 =
     (if p > 0 \<and> t0 < p then 0 else if p > 0 then (t0 - p) / (1 - p) else t0)"

definition hillProfile :: "HillConfig \<Rightarrow> real \<Rightarrow> real" where
  "hillProfile c d =
     (if d \<ge> radius c + skirt c then 0
      else if d \<ge> radius c then 0
      else height c * (1 - plateauRemap (plateau c) (d / radius c)) powr roundness c)"

text \<open>Concrete configurations used in the scenarios below.\<close>

definition hill_r5_h3 :: HillConfig where
  "hill_r5_h3 = DEFAULT_HILL\<lparr>radius := 5, height := 3\<rparr>"

definition hill_r5_h3_round2 :: HillConfig where
  "hill_r5_h3_round2 = DEFAULT_HILL\<lparr>radius := 5, height := 3, roundness := 2\<rparr>"

definition pit_depth3 :: HillConfig where
  "pit_depth3 = DEFAULT_HILL\<lparr>height := - 3\<rparr>"

section \<open>Vectors, quaternions and matrices of the rendering library\<close>

text \<open>
  The component calls \<^verbatim>\<open>THREE.Vector3\<close>, \<^verbatim>\<open>THREE.Quaternion\<close> and \<^verbatim>\<open>THREE.Matrix4\<close>
  of the three.js library, which is a dependency and not part of the repository.  The
  definitions of this section follow the library's methods of the same names.  A matrix
  is its \<^verbatim>\<open>elements\<close> array: sixteen numbers in column-major order.
\<close>

type_synonym Vector3 = "real \<times> real \<times> real"

type_synonym Quaternion = "real \<times> real \<times> real \<times> real"

type_synonym Matrix4 = "real list"

definition Vector3_length :: "Vector3 \<Rightarrow> real" where
  "Vector3_length v = sqrt (lengthSq v)"

definition multiplyScalar :: "Vector3 \<Rightarrow> real \<Rightarrow> Vector3" where
  "multiplyScalar v s = (case v of (x, y, z) \<Rightarrow> (x * s, y * s, z * s))"

definition divideScalar :: "Vector3 \<Rightarrow> real \<Rightarrow> Vector3" where
  "divideScalar v s = multiplyScalar v (1 / s)"

text \<open>\<^verbatim>\<open>normalize() { return this.divideScalar( this.length() || 1 ) }\<close>\<close>

definition Vector3_normalize :: "Vector3 \<Rightarrow> Vector3" where
  "Vector3_normalize v =
     divideScalar v (if Vector3_length v = 0 then 1 else Vector3_length v)"

definition Number_EPSILON :: real where
  "Number_EPSILON = 1 / 2 ^ 52"

definition Quaternion_normalize :: "Quaternion \<Rightarrow> Quaternion" where
  "Quaternion_normalize q =
     (case q of (x, y, z, w) \<Rightarrow>
        let l = sqrt (x * x + y * y + z * z + w * w)
        in if l = 0 then (0, 0, 0, 1)
           else (x * (1 / l), y * (1 / l), z * (1 / l), w * (1 / l)))"

definition setFromUnitVectors :: "Vector3 \<Rightarrow> Vector3 \<Rightarrow> Quaternion" where
  "setFromUnitVectors vFrom vTo =
     (case vFrom of (fx, fy, fz) \<Rightarrow> case vTo of (tx, ty, tz) \<Rightarrow>
        let r = (fx * tx + fy * ty + fz * tz) + 1
        in Quaternion_normalize
             (if r < Number_EPSILON
              then (if \<bar>fx\<bar> > \<bar>fz\<bar> then (- fy, fx, 0, 0) else (0, - fz, fy, 0))
              else (fy * tz - fz * ty, fz * tx - fx * tz, fx * ty - fy * tx, r)))"

definition setFromAxisAngle :: "Vector3 \<Rightarrow> real \<Rightarrow> Quaternion" where
  "setFromAxisAngle axis angle =
     (case axis of (ax, ay, az) \<Rightarrow>
        let halfAngle = angle / 2; s = sin halfAngle
        in (ax * s, ay * s, az * s, cos halfAngle))"

definition Quaternion_multiply :: "Quaternion \<Rightarrow> Quaternion \<Rightarrow> Quaternion" where
  "Quaternion_multiply a b =
     (case a of (qax, qay, qaz, qaw) \<Rightarrow> case b of (qbx, qby, qbz, qbw) \<Rightarrow>
        (qax * qbw + qaw * qbx + qay * qbz - qaz * qby,
         qay * qbw + qaw * qby + qaz * qbx - qax * qbz,
         qaz * qbw + qaw * qbz + qax * qby - qay * qbx,
         qaw * qbw - qax * qbx - qay * qby - qaz * qbz))"

definition compose :: "Vector3 \<Rightarrow> Quaternion \<Rightarrow> Vector3 \<Rightarrow> Matrix4" where
  "compose position quaternion scale =
     (case position of (px, py, pz) \<Rightarrow> case quaternion of (x, y, z, w) \<Rightarrow>
      case scale of (sx, sy, sz) \<Rightarrow>
        let x2 = x + x; y2 = y + y; z2 = z + z;
            xx = x * x2; xy = x * y2; xz = x * z2;
            yy = y * y2; yz = y * z2; zz = z * z2;
            wx = w * x2; wy = w * y2; wz = w * z2
        in [(1 - (yy + zz)) * sx, (xy + wz) * sx, (xz - wy) * sx, 0,
            (xy - wz) * sy, (1 - (xx + zz)) * sy, (yz + wx) * sy, 0,
            (xz + wy) * sz, (yz - wx) * sz, (1 - (xx + yy)) * sz, 0,
            px, py, pz, 1])"

text \<open>
  \<^verbatim>\<open>matrix.toArray(array, offset)\<close> stores the sixteen elements at
  \<^verbatim>\<open>array[offset] .. array[offset + 15]\<close>.  The target is a typed array, where a store
  beyond the end is ignored, as \<open>list_update\<close> does.
\<close>

definition toArray :: "Matrix4 \<Rightarrow> real list \<Rightarrow> nat \<Rightarrow> real list" where
  "toArray te array offset = fold (\<lambda>k a. a[offset + k := te ! k]) [0..<16] array"

section \<open>Instance transform generator\<close>

text \<open>
  \<^verbatim>\<open>Math.random()\<close> is a stream of draws \<open>rnd 0, rnd 1, \<dots>\<close>; the generator state is
  the number of draws taken so far.
\<close>

definition Math_random :: "(nat \<Rightarrow> real) \<Rightarrow> nat \<Rightarrow> real \<times> nat" where
  "Math_random rnd k = (rnd k, Suc k)"

datatype error = RangeError

text \<open>Lines 472--473: the normal that the orientation is aligned to.\<close>

definition alignNormal :: "real \<Rightarrow> real \<Rightarrow> real \<Rightarrow> Vector3" where
  "alignNormal nx ny nz =
     (let normal = Vector3_normalize (nx, ny, nz)
      in if lengthSq normal < 1 / 1000 then (0, 1, 0) else normal)"

text \<open>
  One pass of the loop body up to \<^verbatim>\<open>matrix.compose\<close>: the position, quaternion and
  scale of one blade, and the generator state after its four draws.
\<close>

definition bladeTransform ::
  "HeightField \<Rightarrow> real \<times> real \<Rightarrow> real \<times> real \<Rightarrow> (nat \<Rightarrow> real) \<Rightarrow> nat
     \<Rightarrow> (Vector3 \<times> Quaternion \<times> Vector3) \<times> nat" where
  "bladeTransform heightFunction size' bladeHeight rnd k =
     (case Math_random rnd k of (r1, k1) \<Rightarrow>
      let x = (r1 - 1 / 2) * fst size' in
      case Math_random rnd k1 of (r2, k2) \<Rightarrow>
      let z = (r2 - 1 / 2) * snd size' in
      case heightFunction x z of (hgt, nx, ny, nz) \<Rightarrow>
      case Math_random rnd k2 of (r3, k3) \<Rightarrow>
      let scaleY = fst bladeHeight + r3 * (snd bladeHeight - fst bladeHeight) in
      case Math_random rnd k3 of (r4, k4) \<Rightarrow>
      let rotationY = r4 * pi * 2;
          position3 = (x, hgt, z);
          normal = alignNormal nx ny nz;
          quaternion = Quaternion_multiply (setFromUnitVectors (0, 1, 0) normal)
                         (setFromAxisAngle normal rotationY);
          scaleVec = (1, scaleY, 1)
      in ((position3, quaternion, scaleVec), k4))"

definition instanceStep ::
  "HeightField \<Rightarrow> real \<times> real \<Rightarrow> real \<times> real \<Rightarrow> (nat \<Rightarrow> real) \<Rightarrow> nat
     \<Rightarrow> real list \<times> nat \<Rightarrow> real list \<times> nat" where
  "instanceStep heightFunction size' bladeHeight rnd i st =
     (case st of (matrices, k) \<Rightarrow>
      case bladeTransform heightFunction size' bladeHeight rnd k of
        ((position3, quaternion, scaleVec), k') \<Rightarrow>
          (toArray (compose position3 quaternion scaleVec) matrices (i * 16), k'))"

text \<open>
  \<^verbatim>\<open>new Float32Array(bladeCount * 16)\<close> throws a \<^verbatim>\<open>RangeError\<close> for a negative length;
  otherwise the buffer starts zero-filled and the loop runs for \<open>i = 0, \<dots>, bladeCount - 1\<close>.
  The blade count is an integer.
\<close>

definition instanceMatrices ::
  "int \<Rightarrow> real \<times> real \<Rightarrow> real \<times> real \<Rightarrow> HeightField \<Rightarrow> (nat \<Rightarrow> real) \<Rightarrow> error + real list"
  where
  "instanceMatrices bladeCount size' bladeHeight heightFunction rnd =
     (if bladeCount * 16 < 0 then Inl RangeError
      else Inr (fst (fold (instanceStep heightFunction size' bladeHeight rnd)
                       [0..<nat bladeCount]
                       (replicate (nat (bladeCount * 16)) 0, 0))))"

text \<open>The transform of blade \<open>i\<close>: its draws are \<open>rnd (4 * i), \<dots>, rnd (4 * i + 3)\<close>.\<close>

definition blade ::
  "HeightField \<Rightarrow> real \<times> real \<Rightarrow> real \<times> real \<Rightarrow> (nat \<Rightarrow> real) \<Rightarrow> nat
     \<Rightarrow> Vector3 \<times> Quaternion \<times> Vector3" where
  "blade heightFunction size' bladeHeight rnd i =
     fst (bladeTransform heightFunction size' bladeHeight rnd (4 * i))"

definition bladeMatrix ::
  "HeightField \<Rightarrow> real \<times> real \<Rightarrow> real \<times> real \<Rightarrow> (nat \<Rightarrow> real) \<Rightarrow> nat \<Rightarrow> Matrix4" where
  "bladeMatrix heightFunction size' bladeHeight rnd i =
     (case blade heightFunction size' bladeHeight rnd i of
        (position3, quaternion, scaleVec) \<Rightarrow> compose position3 quaternion scaleVec)"


section \<open>Terrain mesh builder\<close>

text \<open>
  The vertex positions of \<^verbatim>\<open>THREE.PlaneGeometry(width, height, widthSegments,
  heightSegments)\<close> (three.js): a grid in the plane \<open>z = 0\<close>, row by row.
\<close>

definition PlaneGeometry_vertices :: "real \<Rightarrow> real \<Rightarrow> nat \<Rightarrow> nat \<Rightarrow> Vector3 list" where
  "PlaneGeometry_vertices width height' widthSegments heightSegments =
     (let width_half = width / 2;
          height_half = height' / 2;
          gridX = widthSegments;
          gridY = heightSegments;
          gridX1 = gridX + 1;
          gridY1 = gridY + 1;
          segment_width = width / real gridX;
          segment_height = height' / real gridY
      in concat (map (\<lambda>iy.
           let y = real iy * segment_height - height_half
           in map (\<lambda>ix.
                let x = real ix * segment_width - width_half
                in (x, - y, 0)) [0..<gridX1]) [0..<gridY1]))"

text \<open>
  \<^verbatim>\<open>terrainGeometry\<close>: the loop over the vertices reads \<^verbatim>\<open>x = vertices[i * 3]\<close> and
  \<^verbatim>\<open>z = vertices[i * 3 + 1]\<close> and stores the sampled height in \<^verbatim>\<open>vertices[i * 3 + 2]\<close>;
  then \<^verbatim>\<open>geo.computeVertexNormals()\<close> (three.js, a parameter here) derives the normals
  from the stored positions.
\<close>

record TerrainGeometry =
  positions :: "Vector3 list"
  normals :: "Vector3 list"

definition terrainGeometry ::
  "(Vector3 list \<Rightarrow> Vector3 list) \<Rightarrow> real \<times> real \<Rightarrow> HeightField \<Rightarrow> nat \<Rightarrow> TerrainGeometry"
  where
  "terrainGeometry computeVertexNormals size' heightFunction terrainSegments =
     (let vertices = map (\<lambda>v. case v of (x, z, _) \<Rightarrow>
                            (case heightFunction x z of (hgt, _) \<Rightarrow> (x, z, hgt)))
                       (PlaneGeometry_vertices (fst size') (snd size') terrainSegments
                          terrainSegments)
      in \<lparr> positions = vertices, normals = computeVertexNormals vertices \<rparr>)"

text \<open>
  The terrain mesh is mounted with \<^verbatim>\<open>rotation={[-Math.PI / 2, 0, 0]}\<close> inside the group
  that also holds the blades: a rotation about the x axis (three.js, Euler angles with
  \<open>y = z = 0\<close>).
\<close>

definition rotateX :: "real \<Rightarrow> Vector3 \<Rightarrow> Vector3" where
  "rotateX a v = (case v of (x, y, z) \<Rightarrow> (x, cos a * y - sin a * z, sin a * y + cos a * z))"

definition terrainMeshVertices ::
  "(Vector3 list \<Rightarrow> Vector3 list) \<Rightarrow> real \<times> real \<Rightarrow> HeightField \<Rightarrow> nat \<Rightarrow> Vector3 list"
  where
  "terrainMeshVertices computeVertexNormals size' heightFunction terrainSegments =
     map (rotateX (- pi / 2))
       (positions (terrainGeometry computeVertexNormals size' heightFunction terrainSegments))"

definition hill_z5 :: HillConfig where
  "hill_z5 = DEFAULT_HILL\<lparr>centerZ := 5, radius := 3\<rparr>"

section \<open>Wind animation\<close>

record WindConfig =
  strength :: real
  speed :: real
  direction :: real
  turbulence :: real
  gustFrequency :: real
  gustStrength :: real

definition DEFAULT_WIND :: WindConfig where
  "DEFAULT_WIND =
     \<lparr> strength = 3 / 10, speed = 1, direction = 0, turbulence = 3 / 10,
       gustFrequency = 1 / 2, gustStrength = 1 / 2 \<rparr>"

definition windDirection :: "WindConfig \<Rightarrow> real \<times> real" where
  "windDirection windConfig = (cos (direction windConfig), sin (direction windConfig))"

text \<open>The uniforms of the shader material.\<close>

record Uniforms =
  uTime :: real
  uWindStrength :: real
  uWindSpeed :: real
  uWindDirection :: "real \<times> real"
  uTurbulence :: real
  uGustFrequency :: real
  uGustStrength :: real
  uBaseColor :: string
  uTipColor :: string

text \<open>The \<^verbatim>\<open>material\<close> memo: a new material starts with \<^verbatim>\<open>uTime: { value: 0 }\<close>.\<close>

definition createMaterial :: "WindConfig \<Rightarrow> real \<times> real \<Rightarrow> string \<Rightarrow> string \<Rightarrow> Uniforms" where
  "createMaterial windConfig windDir baseColor tipColor =
     \<lparr> uTime = 0,
       uWindStrength = strength windConfig,
       uWindSpeed = speed windConfig,
       uWindDirection = windDir,
       uTurbulence = turbulence windConfig,
       uGustFrequency = gustFrequency windConfig,
       uGustStrength = gustStrength windConfig,
       uBaseColor = baseColor,
       uTipColor = tipColor \<rparr>"

text \<open>
  The \<^verbatim>\<open>useFrame\<close> callback: \<^verbatim>\<open>material.uniforms.uTime.value = state.clock.elapsedTime\<close>.
  The clock belongs to the renderer's root state; the component only reads it.
\<close>

definition animateWind :: "Uniforms \<Rightarrow> real \<Rightarrow> Uniforms" where
  "animateWind material elapsedTime = material\<lparr>uTime := elapsedTime\<rparr>"

text \<open>
  The life cycle of the component as far as the wind state is concerned: mounting builds
  the material, every rendered frame runs the callback with the clock's elapsed time,
  unmounting drops the material.
\<close>

datatype GrassEvent = Mount WindConfig string string | Frame real | Unmount

fun grassStep :: "Uniforms option \<Rightarrow> GrassEvent \<Rightarrow> Uniforms option" where
  "grassStep s (Mount windConfig baseColor tipColor) =
     Some (createMaterial windConfig (windDirection windConfig) baseColor tipColor)"
| "grassStep (Some material) (Frame elapsedTime) = Some (animateWind material elapsedTime)"
| "grassStep None (Frame elapsedTime) = None"
| "grassStep s Unmount = None"

definition grassRun :: "GrassEvent list \<Rightarrow> Uniforms option" where
  "grassRun events = foldl grassStep None events"

section \<open>Vertex shader\<close>

text \<open>
  GLSL vectors are tuples; \<^verbatim>\<open>float\<close> is \<open>real\<close>.  \<open>map3\<close>, \<open>zip3\<close>, \<open>map4\<close>, \<open>zip4\<close> apply
  an operation component by component, as the GLSL operators on vectors do.
\<close>

type_synonym vec2 = "real \<times> real"

type_synonym vec3 = "real \<times> real \<times> real"

type_synonym vec4 = "real \<times> real \<times> real \<times> real"

definition map3 :: "(real \<Rightarrow> real) \<Rightarrow> vec3 \<Rightarrow> vec3" where
  "map3 f v = (case v of (x, y, z) \<Rightarrow> (f x, f y, f z))"

definition zip3 :: "(real \<Rightarrow> real \<Rightarrow> real) \<Rightarrow> vec3 \<Rightarrow> vec3 \<Rightarrow> vec3" where
  "zip3 f a b = (case a of (ax, ay, az) \<Rightarrow> case b of (bx, by, bz) \<Rightarrow> (f ax bx, f ay by, f az bz))"

definition map4 :: "(real \<Rightarrow> real) \<Rightarrow> vec4 \<Rightarrow> vec4" where
  "map4 f v = (case v of (x, y, z, w) \<Rightarrow> (f x, f y, f z, f w))"

definition zip4 :: "(real \<Rightarrow> real \<Rightarrow> real) \<Rightarrow> vec4 \<Rightarrow> vec4 \<Rightarrow> vec4" where
  "zip4 f a b =
     (case a of (ax, ay, az, aw) \<Rightarrow> case b of (bx, by, bz, bw) \<Rightarrow>
        (f ax bx, f ay by, f az bz, f aw bw))"

definition dot2 :: "vec2 \<Rightarrow> vec2 \<Rightarrow> real" where
  "dot2 a b = fst a * fst b + snd a * snd b"

definition dot3 :: "vec3 \<Rightarrow> vec3 \<Rightarrow> real" where
  "dot3 a b = (case a of (ax, ay, az) \<Rightarrow> case b of (bx, by, bz) \<Rightarrow> ax * bx + ay * by + az * bz)"

definition dot4 :: "vec4 \<Rightarrow> vec4 \<Rightarrow> real" where
  "dot4 a b =
     (case a of (ax, ay, az, aw) \<Rightarrow> case b of (bx, by, bz, bw) \<Rightarrow>
        ax * bx + ay * by + az * bz + aw * bw)"

definition glsl_floor :: "real \<Rightarrow> real" where
  "glsl_floor x = of_int \<lfloor>x\<rfloor>"

definition step :: "real \<Rightarrow> real \<Rightarrow> real" where
  "step edge x = (if x < edge then 0 else 1)"

definition mod289 :: "real \<Rightarrow> real" where
  "mod289 x = x - glsl_floor (x * (1 / 289)) * 289"

definition permute :: "real \<Rightarrow> real" where
  "permute x = mod289 (((x * 34) + 1) * x)"

definition taylorInvSqrt :: "real \<Rightarrow> real" where
  "taylorInvSqrt r = 1.79284291400159 - 0.85373472095314 * r"

definition snoise :: "vec3 \<Rightarrow> real" where
  "snoise v =
     (let Cx = 1 / 6; Cy = 1 / 3;
          Dx = 0; Dy = 1 / 2; Dz = 1; Dw = 2;
          i = map3 glsl_floor (map3 (\<lambda>a. a + dot3 v (Cy, Cy, Cy)) v);
          x0 = map3 (\<lambda>a. a + dot3 i (Cx, Cx, Cx)) (zip3 (-) v i)
      in case x0 of (x0x, x0y, x0z) \<Rightarrow>
      let g = zip3 step (x0y, x0z, x0x) (x0x, x0y, x0z);
          l = map3 (\<lambda>a. 1 - a) g
      in case g of (gx, gy, gz) \<Rightarrow> case l of (lx, ly, lz) \<Rightarrow>
      let i1 = zip3 min (gx, gy, gz) (lz, lx, ly);
          i2 = zip3 max (gx, gy, gz) (lz, lx, ly);
          x1 = map3 (\<lambda>a. a + Cx) (zip3 (-) x0 i1);
          x2 = map3 (\<lambda>a. a + Cy) (zip3 (-) x0 i2);
          x3 = map3 (\<lambda>a. a - Dy) x0
      in case map3 mod289 i of (ix, iy, iz) \<Rightarrow>
         case i1 of (i1x, i1y, i1z) \<Rightarrow> case i2 of (i2x, i2y, i2z) \<Rightarrow>
      let pz = map4 permute (map4 (\<lambda>a. iz + a) (0, i1z, i2z, 1));
          py = map4 permute (zip4 (+) (map4 (\<lambda>a. a + iy) pz) (0, i1y, i2y, 1));
          p = map4 permute (zip4 (+) (map4 (\<lambda>a. a + ix) py) (0, i1x, i2x, 1));
          n_' = 0.142857142857;
          nsx = n_' * Dw - Dx; nsy = n_' * Dy - Dz; nsz = n_' * Dz - Dx;
          j = zip4 (-) p (map4 (\<lambda>a. 49 * glsl_floor (a * nsz * nsz)) p);
          x_' = map4 (\<lambda>a. glsl_floor (a * nsz)) j;
          y_' = map4 glsl_floor (zip4 (-) j (map4 (\<lambda>a. 7 * a) x_'));
          x = map4 (\<lambda>a. a * nsx + nsy) x_';
          y = map4 (\<lambda>a. a * nsx + nsy) y_';
          h = zip4 (-) (map4 (\<lambda>a. 1 - \<bar>a\<bar>) x) (map4 abs y)
      in case x of (xx, xy, xz, xw) \<Rightarrow> case y of (yx, yy, yz, yw) \<Rightarrow>
         case h of (hx, hy, hz, hw) \<Rightarrow>
      let b0 = (xx, xy, yx, yy);
          b1 = (xz, xw, yz, yw);
          s0 = map4 (\<lambda>a. glsl_floor a * 2 + 1) b0;
          s1 = map4 (\<lambda>a. glsl_floor a * 2 + 1) b1;
          sh = map4 (\<lambda>a. - step a 0) h
      in case b0 of (b0x, b0y, b0z, b0w) \<Rightarrow> case b1 of (b1x, b1y, b1z, b1w) \<Rightarrow>
         case s0 of (s0x, s0y, s0z, s0w) \<Rightarrow> case s1 of (s1x, s1y, s1z, s1w) \<Rightarrow>
         case sh of (shx, shy, shz, shw) \<Rightarrow>
      let a0 = zip4 (+) (b0x, b0z, b0y, b0w) (zip4 (*) (s0x, s0z, s0y, s0w) (shx, shx, shy, shy));
          a1 = zip4 (+) (b1x, b1z, b1y, b1w) (zip4 (*) (s1x, s1z, s1y, s1w) (shz, shz, shw, shw))
      in case a0 of (a0x, a0y, a0z, a0w) \<Rightarrow> case a1 of (a1x, a1y, a1z, a1w) \<Rightarrow>
      let p0 = (a0x, a0y, hx);
          p1 = (a0z, a0w, hy);
          p2 = (a1x, a1y, hz);
          p3 = (a1z, a1w, hw);
          norm = map4 taylorInvSqrt (dot3 p0 p0, dot3 p1 p1, dot3 p2 p2, dot3 p3 p3)
      in case norm of (normx, normy, normz, normw) \<Rightarrow>
      let p0' = map3 (\<lambda>a. a * normx) p0;
          p1' = map3 (\<lambda>a. a * normy) p1;
          p2' = map3 (\<lambda>a. a * normz) p2;
          p3' = map3 (\<lambda>a. a * normw) p3;
          m = map4 (\<lambda>a. max (0.6 - a) 0) (dot3 x0 x0, dot3 x1 x1, dot3 x2 x2, dot3 x3 x3);
          m' = zip4 (*) m m
      in 42 * dot4 (zip4 (*) m' m') (dot3 p0' x0, dot3 p1' x1, dot3 p2' x2, dot3 p3' x3))"

text \<open>\<^verbatim>\<open>instanceMatrix * vec4(position, 1.0)\<close>: a column-major matrix times a vector.\<close>

definition mulMat4Vec4 :: "Matrix4 \<Rightarrow> vec4 \<Rightarrow> vec4" where
  "mulMat4Vec4 m v =
     (case v of (x, y, z, w) \<Rightarrow>
        (m ! 0 * x + m ! 4 * y + m ! 8 * z + m ! 12 * w,
         m ! 1 * x + m ! 5 * y + m ! 9 * z + m ! 13 * w,
         m ! 2 * x + m ! 6 * y + m ! 10 * z + m ! 14 * w,
         m ! 3 * x + m ! 7 * y + m ! 11 * z + m ! 15 * w))"

text \<open>
  \<^verbatim>\<open>main\<close> of the vertex shader up to the local variable \<^verbatim>\<open>pos\<close>: the blade vertex after
  the wind displacement, before the instance and camera matrices are applied.
\<close>

definition vertexShader_pos :: "Uniforms \<Rightarrow> Matrix4 \<Rightarrow> vec3 \<Rightarrow> vec3" where
  "vertexShader_pos u instanceMatrix position =
     (case position of (positionx, positiony, positionz) \<Rightarrow>
      case mulMat4Vec4 instanceMatrix (positionx, positiony, positionz, 1) of
        (worldPosx, worldPosy, worldPosz, worldPosw) \<Rightarrow>
      let windTime = uTime u * uWindSpeed u;
          windPhase = dot2 (worldPosx, worldPosz) (uWindDirection u) * 0.3;
          baseWind = sin (windTime * 2 + windPhase);
          turbulence = snoise (worldPosx * 0.1, worldPosz * 0.1, windTime * 0.5) * uTurbulence u;
          gust0 = sin (windTime * uGustFrequency u) * 0.5 + 0.5;
          gust = gust0 powr 4 * uGustStrength u;
          windEffect = (baseWind + turbulence + gust) * uWindStrength u * positiony * positiony;
          posx1 = positionx + windEffect * fst (uWindDirection u);
          posz1 = positionz + windEffect * snd (uWindDirection u);
          sway = snoise (worldPosx * 0.2, worldPosz * 0.2, windTime) * uWindStrength u
                   * positiony * 0.3;
          posx2 = posx1 + sway * snd (uWindDirection u);
          posz2 = posz1 - sway * fst (uWindDirection u)
      in (posx2, positiony, posz2))"

text \<open>The displacement that the wind adds to a blade vertex.\<close>

definition windDisplacement :: "Uniforms \<Rightarrow> Matrix4 \<Rightarrow> vec3 \<Rightarrow> vec3" where
  "windDisplacement u instanceMatrix position =
     zip3 (-) (vertexShader_pos u instanceMatrix position) position"


text \<open>Further concrete inputs for the scenarios.\<close>

definition hill_r5_skirt2 :: HillConfig where
  "hill_r5_skirt2 = DEFAULT_HILL\<lparr>radius := 5, skirt := 2\<rparr>"

definition zeroNormalField :: HeightField where
  "zeroNormalField = (\<lambda>x z. (0, 0, 0, 0))"

section \<open>Properties of the terrain height model\<close>

lemma DEFAULT_HILL_fields:
  "centerX DEFAULT_HILL = 0" "centerZ DEFAULT_HILL = 0" "radius DEFAULT_HILL = 10"
  "height DEFAULT_HILL = 3" "roundness DEFAULT_HILL = 2" "plateau DEFAULT_HILL = 0"
  "skirt DEFAULT_HILL = 0" "asymmetry DEFAULT_HILL = (1, 1)" "rotation DEFAULT_HILL = 0"
  "ridge DEFAULT_HILL = 0" "ridgeDirection DEFAULT_HILL = 0"
  by (simp_all add: DEFAULT_HILL_def)

lemma sqrt_of_square_10: "sqrt ((10::real) * 10) = 10"
  by (simp only: real_sqrt_abs2)

lemma sqrt_of_square_6: "sqrt ((6::real) * 6) = 6"
  by (simp only: real_sqrt_abs2)

lemma sqrt_of_square_5: "sqrt ((5::real) * 5) = 5"
  by (simp only: real_sqrt_abs2)

lemma hillDist_nonneg: "0 \<le> hillDist c x z"
  by (simp add: hillDist_def Let_def)

lemma hillDist_centre: "hillDist c (centerX c) (centerZ c) = 0"
  by (simp add: hillDist_def Let_def)

lemma hill_flat:
  assumes "radius c + skirt c \<le> hillDist c x z \<or>
           (radius c \<le> hillDist c x z \<and> hillDist c x z < radius c + skirt c)"
  shows "createHillTerrain c x z = (0, 0, 1, 0)"
  using assms by (auto simp: createHillTerrain_def hillDist_def Let_def)

text \<open>
  C1. For every hill and every ground coordinate whose scaled radial distance \<open>dist\<close>
  is at least \<open>radius + skirt\<close>, or lies in the skirt band
  \<open>radius \<le> dist < radius + skirt\<close>, the field returns height 0 and normal \<open>(0, 1, 0)\<close>.
\<close>

theorem hill_flat_outside:
  assumes "nonzeroAsymmetry c"
    and "radius c + skirt c \<le> hillDist c x z \<or>
         (radius c \<le> hillDist c x z \<and> hillDist c x z < radius c + skirt c)"
  shows "sampleHeight (createHillTerrain c x z) = 0 \<and>
         sampleNormal (createHillTerrain c x z) = (0, 1, 0)"
  using hill_flat [OF assms(2)] by (simp add: sampleHeight_def sampleNormal_def)

text \<open>
  The scenario of the specification, \<^verbatim>\<open>Hill(radius=5, height=3)\<close> at distance 10, and a
  point of the skirt band of a hill with radius 5 and skirt 2.
\<close>

theorem hill_flat_outside_witness:
  "nonzeroAsymmetry hill_r5_h3 \<and> hillDist hill_r5_h3 10 0 = 10 \<and>
   radius hill_r5_h3 + skirt hill_r5_h3 = 5 \<and>
   sampleHeight (createHillTerrain hill_r5_h3 10 0) = 0 \<and>
   sampleNormal (createHillTerrain hill_r5_h3 10 0) = (0, 1, 0) \<and>
   nonzeroAsymmetry hill_r5_skirt2 \<and> hillDist hill_r5_skirt2 6 0 = 6 \<and>
   radius hill_r5_skirt2 = 5 \<and> radius hill_r5_skirt2 + skirt hill_r5_skirt2 = 7 \<and>
   sampleHeight (createHillTerrain hill_r5_skirt2 6 0) = 0 \<and>
   sampleNormal (createHillTerrain hill_r5_skirt2 6 0) = (0, 1, 0)"
proof -
  have a: "nonzeroAsymmetry hill_r5_h3" "radius hill_r5_h3 + skirt hill_r5_h3 = 5"
    by (simp_all add: nonzeroAsymmetry_def hill_r5_h3_def DEFAULT_HILL_fields)
  have d: "hillDist hill_r5_h3 10 0 = 10"
    using sqrt_of_square_10 by (simp add: hillDist_def hill_r5_h3_def DEFAULT_HILL_fields Let_def)
  have b: "nonzeroAsymmetry hill_r5_skirt2" "radius hill_r5_skirt2 = 5"
    "radius hill_r5_skirt2 + skirt hill_r5_skirt2 = 7"
    by (simp_all add: nonzeroAsymmetry_def hill_r5_skirt2_def DEFAULT_HILL_fields)
  have e: "hillDist hill_r5_skirt2 6 0 = 6"
    using sqrt_of_square_6 by (simp add: hillDist_def hill_r5_skirt2_def DEFAULT_HILL_fields Let_def)
  show ?thesis
    using hill_flat_outside [of hill_r5_h3 10 0] hill_flat_outside [of hill_r5_skirt2 6 0]
      a b d e
    by simp
qed

section \<open>Height at the centre and radial monotonicity\<close>

lemma hill_height_profile:
  assumes "ridge c \<le> 0"
  shows "sampleHeight (createHillTerrain c x z) = hillProfile c (hillDist c x z)"
  using assms
  by (simp add: createHillTerrain_def hillProfile_def plateauRemap_def hillDist_def
      sampleHeight_def Let_def)

lemma plateauRemap_range:
  assumes "0 \<le> t0" "t0 < 1"
  shows "0 \<le> plateauRemap p t0 \<and> plateauRemap p t0 < 1"
proof (cases "p > 0 \<and> t0 < p")
  case True
  then show ?thesis by (simp add: plateauRemap_def)
next
  case False
  show ?thesis
  proof (cases "p > 0")
    case True
    with False have "p \<le> t0" by simp
    with assms have p1: "p < 1" by simp
    have "(t0 - p) / (1 - p) < 1"
      using p1 assms by (simp add: divide_less_eq)
    moreover have "0 \<le> (t0 - p) / (1 - p)"
      using p1 \<open>p \<le> t0\<close> by simp
    ultimately show ?thesis using True False by (simp add: plateauRemap_def)
  next
    case False
    then show ?thesis using assms by (simp add: plateauRemap_def)
  qed
qed

lemma plateauRemap_mono:
  assumes "0 \<le> s" "s \<le> t" "t < 1"
  shows "plateauRemap p s \<le> plateauRemap p t"
proof (cases "p > 0")
  case False
  then show ?thesis using assms by (simp add: plateauRemap_def)
next
  case True
  show ?thesis
  proof (cases "t < p")
    case True
    then show ?thesis using assms \<open>p > 0\<close> by (simp add: plateauRemap_def)
  next
    case False
    then have p1: "p < 1" using assms by simp
    show ?thesis
    proof (cases "s < p")
      case True
      then show ?thesis using False p1 \<open>p > 0\<close> by (simp add: plateauRemap_def)
    next
      case sp: False
      then show ?thesis using False p1 \<open>p > 0\<close> assms
        by (simp add: plateauRemap_def divide_right_mono)
    qed
  qed
qed

text \<open>
  Where the hill is not flat, \<^verbatim>\<open>Math.pow\<close> receives a base in \<open>(0, 1]\<close>.
\<close>

lemma hill_pow_base:
  assumes "0 \<le> d" "d < radius c"
  shows "0 < 1 - plateauRemap (plateau c) (d / radius c) \<and>
         1 - plateauRemap (plateau c) (d / radius c) \<le> 1"
proof -
  have "0 < radius c" using assms by simp
  then have "0 \<le> d / radius c" "d / radius c < 1" using assms by simp_all
  then show ?thesis using plateauRemap_range [of "d / radius c" "plateau c"] by simp
qed

lemma hillProfile_nonneg:
  assumes "0 \<le> height c"
  shows "0 \<le> hillProfile c d"
  using assms by (simp add: hillProfile_def)

lemma hillProfile_antimono:
  assumes h: "0 \<le> height c" and r: "0 \<le> roundness c"
    and d: "0 \<le> d1" "d1 \<le> d2"
  shows "hillProfile c d2 \<le> hillProfile c d1"
proof (cases "d2 \<ge> radius c + skirt c \<or> d2 \<ge> radius c")
  case True
  then have "hillProfile c d2 = 0" by (auto simp: hillProfile_def)
  then show ?thesis using hillProfile_nonneg [OF h, of d1] by simp
next
  case False
  then have in2: "d2 < radius c + skirt c" "d2 < radius c" by simp_all
  with d have in1: "d1 < radius c + skirt c" "d1 < radius c" by simp_all
  have rpos: "0 < radius c" using d in2 by simp
  have t: "0 \<le> d1 / radius c" "d1 / radius c \<le> d2 / radius c" "d2 / radius c < 1"
    using d in2 rpos by (simp_all add: divide_right_mono)
  let ?t1 = "plateauRemap (plateau c) (d1 / radius c)"
  let ?t2 = "plateauRemap (plateau c) (d2 / radius c)"
  have m: "?t1 \<le> ?t2" by (rule plateauRemap_mono [OF t])
  have "?t2 < 1" using plateauRemap_range [of "d2 / radius c" "plateau c"] t by simp
  then have "(1 - ?t2) powr roundness c \<le> (1 - ?t1) powr roundness c"
    using m r by (intro powr_mono2) simp_all
  then have "height c * (1 - ?t2) powr roundness c \<le> height c * (1 - ?t1) powr roundness c"
    using h by (rule mult_left_mono)
  then show ?thesis using in1 in2 by (simp add: hillProfile_def)
qed

lemma hill_monotone:
  assumes "0 \<le> height c" "0 \<le> roundness c" "ridge c \<le> 0"
    and "hillDist c x1 z1 \<le> hillDist c x2 z2"
  shows "sampleHeight (createHillTerrain c x2 z2) \<le> sampleHeight (createHillTerrain c x1 z1)"
  using assms hillProfile_antimono [of c "hillDist c x1 z1" "hillDist c x2 z2"]
    hillDist_nonneg [of c x1 z1]
  by (simp add: hill_height_profile)

lemma getHeight_even:
  "getHeight c (centerX c - a) (centerZ c - b) = getHeight c (centerX c + a) (centerZ c + b)"
proof -
  define C where "C = cos (- rotation c)"
  define S where "S = sin (- rotation c)"
  define u where "u = (a * C - b * S) / fst (asymmetry c)"
  define v where "v = (a * S + b * C) / snd (asymmetry c)"
  have p: "(centerX c + a - centerX c) * C - (centerZ c + b - centerZ c) * S = a * C - b * S"
          "(centerX c + a - centerX c) * S + (centerZ c + b - centerZ c) * C = a * S + b * C"
    by simp_all
  have n: "(centerX c - a - centerX c) * C - (centerZ c - b - centerZ c) * S = - (a * C - b * S)"
          "(centerX c - a - centerX c) * S + (centerZ c - b - centerZ c) * C = - (a * S + b * C)"
    by simp_all
  have abs_eq: "\<bar>- u * k - - v * l\<bar> = \<bar>u * k - v * l\<bar>" for k l
    by (simp add: abs_minus_commute)
  show ?thesis
    unfolding getHeight_def Let_def C_def [symmetric] S_def [symmetric] p n
      minus_divide_left [symmetric] u_def [symmetric] v_def [symmetric]
    by (simp only: abs_eq minus_mult_minus)
qed

lemma hill_centre:
  assumes "0 < radius c" "0 < radius c + skirt c"
  shows "createHillTerrain c (centerX c) (centerZ c) = (height c, 0, 1, 0)"
proof -
  have sx: "getHeight c (centerX c + 1 / 100) (centerZ c) = getHeight c (centerX c - 1 / 100) (centerZ c)"
    using getHeight_even [of c "1 / 100" 0] by simp
  have sz: "getHeight c (centerX c) (centerZ c + 1 / 100) = getHeight c (centerX c) (centerZ c - 1 / 100)"
    using getHeight_even [of c 0 "1 / 100"] by simp
  show ?thesis
    using assms by (simp add: createHillTerrain_def Let_def sx sz)
qed

text \<open>
  C3, as the specification states it, fails for a hill of negative peak height: the
  default hill with \<^verbatim>\<open>height: -3\<close> has roundness 2 and no ridge, its centre is at
  radial distance 0 and the point \<open>(10, 0)\<close> at radial distance 10, yet the height grows
  from \<open>-3\<close> at the centre to \<open>0\<close> at \<open>(10, 0)\<close>.
\<close>

theorem hill_monotone_counterexample:
  "nonzeroAsymmetry pit_depth3 \<and> 1 \<le> roundness pit_depth3 \<and> ridge pit_depth3 = 0 \<and>
   hillDist pit_depth3 0 0 = 0 \<and> hillDist pit_depth3 10 0 = 10 \<and>
   sampleHeight (createHillTerrain pit_depth3 0 0) = - 3 \<and>
   sampleHeight (createHillTerrain pit_depth3 10 0) = 0"
proof -
  have f: "centerX pit_depth3 = 0" "centerZ pit_depth3 = 0" "radius pit_depth3 = 10"
    "skirt pit_depth3 = 0" "height pit_depth3 = - 3" "roundness pit_depth3 = 2"
    "ridge pit_depth3 = 0" "asymmetry pit_depth3 = (1, 1)" "rotation pit_depth3 = 0"
    by (simp_all add: pit_depth3_def DEFAULT_HILL_fields)
  have d0: "hillDist pit_depth3 0 0 = 0"
    using hillDist_centre [of pit_depth3] by (simp add: f)
  have d10: "hillDist pit_depth3 10 0 = 10"
    using sqrt_of_square_10 by (simp add: hillDist_def f Let_def)
  have c0: "createHillTerrain pit_depth3 0 0 = (- 3, 0, 1, 0)"
    using hill_centre [of pit_depth3] by (simp add: f)
  have c10: "createHillTerrain pit_depth3 10 0 = (0, 0, 1, 0)"
    by (rule hill_flat) (simp add: d10 f)
  show ?thesis
    by (simp add: d0 d10 c0 c10 sampleHeight_def nonzeroAsymmetry_def f)
qed

text \<open>
  C3, amended.  For every hill with non-zero asymmetry components, peak height \<open>\<ge> 0\<close>,
  roundness \<open>\<ge> 1\<close> and no ridge: when \<open>radius > 0\<close> and \<open>radius + skirt > 0\<close> the sample at
  the centre is exactly the peak height with normal \<open>(0, 1, 0)\<close>, whatever the plateau;
  and the height is monotonically non-increasing in the radial distance.
\<close>

theorem hill_peak_and_monotone:
  assumes "nonzeroAsymmetry c" and "0 \<le> height c" and "1 \<le> roundness c" and "ridge c = 0"
  shows "(0 < radius c \<and> 0 < radius c + skirt c \<longrightarrow>
            createHillTerrain c (centerX c) (centerZ c) = (height c, 0, 1, 0)) \<and>
         (\<forall>x1 z1 x2 z2. hillDist c x1 z1 \<le> hillDist c x2 z2 \<longrightarrow>
            sampleHeight (createHillTerrain c x2 z2) \<le> sampleHeight (createHillTerrain c x1 z1))"
proof (intro conjI impI allI)
  assume "0 < radius c \<and> 0 < radius c + skirt c"
  then show "createHillTerrain c (centerX c) (centerZ c) = (height c, 0, 1, 0)"
    using hill_centre by blast
next
  fix x1 z1 x2 z2
  assume "hillDist c x1 z1 \<le> hillDist c x2 z2"
  then show "sampleHeight (createHillTerrain c x2 z2) \<le> sampleHeight (createHillTerrain c x1 z1)"
    using assms by (intro hill_monotone) simp_all
qed

text \<open>
  The scenario \<^verbatim>\<open>Hill(radius=5, height=3, roundness=2)\<close>: at its centre the sample is
  height 3 with normal \<open>(0, 1, 0)\<close>, and no point is higher than the centre.
\<close>

theorem hill_peak_and_monotone_witness:
  "nonzeroAsymmetry hill_r5_h3_round2 \<and> height hill_r5_h3_round2 = 3 \<and>
   roundness hill_r5_h3_round2 = 2 \<and> ridge hill_r5_h3_round2 = 0 \<and>
   radius hill_r5_h3_round2 = 5 \<and> skirt hill_r5_h3_round2 = 0 \<and>
   createHillTerrain hill_r5_h3_round2 0 0 = (3, 0, 1, 0) \<and>
   hillDist hill_r5_h3_round2 0 0 \<le> hillDist hill_r5_h3_round2 2 1 \<and>
   sampleHeight (createHillTerrain hill_r5_h3_round2 2 1)
     \<le> sampleHeight (createHillTerrain hill_r5_h3_round2 0 0)"
proof -
  have f: "centerX hill_r5_h3_round2 = 0" "centerZ hill_r5_h3_round2 = 0"
    "radius hill_r5_h3_round2 = 5" "skirt hill_r5_h3_round2 = 0"
    "height hill_r5_h3_round2 = 3" "roundness hill_r5_h3_round2 = 2"
    "ridge hill_r5_h3_round2 = 0" "asymmetry hill_r5_h3_round2 = (1, 1)"
    by (simp_all add: hill_r5_h3_round2_def DEFAULT_HILL_fields)
  have wf: "nonzeroAsymmetry hill_r5_h3_round2" by (simp add: nonzeroAsymmetry_def f)
  have d: "hillDist hill_r5_h3_round2 0 0 \<le> hillDist hill_r5_h3_round2 2 1"
    using hillDist_centre [of hill_r5_h3_round2] hillDist_nonneg [of hill_r5_h3_round2 2 1]
    by (simp add: f)
  have t: "(0 < radius hill_r5_h3_round2 \<and> 0 < radius hill_r5_h3_round2 + skirt hill_r5_h3_round2 \<longrightarrow>
            createHillTerrain hill_r5_h3_round2 (centerX hill_r5_h3_round2) (centerZ hill_r5_h3_round2)
              = (height hill_r5_h3_round2, 0, 1, 0)) \<and>
         (\<forall>x1 z1 x2 z2. hillDist hill_r5_h3_round2 x1 z1 \<le> hillDist hill_r5_h3_round2 x2 z2 \<longrightarrow>
            sampleHeight (createHillTerrain hill_r5_h3_round2 x2 z2)
              \<le> sampleHeight (createHillTerrain hill_r5_h3_round2 x1 z1))"
    by (rule hill_peak_and_monotone) (simp_all add: wf f)
  from t have centre: "createHillTerrain hill_r5_h3_round2 0 0 = (3, 0, 1, 0)"
    by (simp add: f)
  from t d have mono: "sampleHeight (createHillTerrain hill_r5_h3_round2 2 1)
     \<le> sampleHeight (createHillTerrain hill_r5_h3_round2 0 0)"
    by blast
  show ?thesis
    using wf d centre mono by (simp add: f)
qed

section \<open>Composite fields and unit normals\<close>

lemma combineLoop_sums:
  "combineLoop ts x z (a, b, c) =
     (a + (\<Sum>t\<leftarrow>ts. fst (t x z)),
      b + (\<Sum>t\<leftarrow>ts. fst (snd (t x z))),
      c + (\<Sum>t\<leftarrow>ts. snd (snd (snd (t x z)))))"
proof (induction ts arbitrary: a b c)
  case Nil
  show ?case by simp
next
  case (Cons t ts)
  obtain y nx ny nz where s: "t x z = (y, nx, ny, nz)"
    by (cases "t x z") auto
  show ?case
    by (simp add: s Cons.IH add.assoc)
qed

text \<open>
  C4. For every finite sequence of child fields and every ground coordinate, the height of
  the combined field is the sum of the children's heights there (exactly, in real
  arithmetic; the loop adds them from left to right, starting from 0).
\<close>

theorem combine_height_is_sum:
  "sampleHeight (combineTerrains terrains x z) = (\<Sum>t\<leftarrow>terrains. sampleHeight (t x z))"
proof -
  obtain totalY totalNx totalNz where l: "combineLoop terrains x z (0, 0, 0) = (totalY, totalNx, totalNz)"
    by (cases "combineLoop terrains x z (0, 0, 0)") auto
  have "totalY = (\<Sum>t\<leftarrow>terrains. fst (t x z))"
    using l by (simp add: combineLoop_sums)
  then show ?thesis
    by (simp add: combineTerrains_def l sampleHeight_def Let_def)
qed

lemma unit_of_gradient:
  "lengthSq (p / sqrt (a * a + 1 + b * b), 1 / sqrt (a * a + 1 + b * b),
             q / sqrt (a * a + 1 + b * b)) =
   (p * p + 1 + q * q) / (a * a + 1 + b * b)"
proof -
  have pos: "0 < a * a + 1 + b * b"
    by (smt (verit) zero_le_square)
  have "sqrt (a * a + 1 + b * b) * sqrt (a * a + 1 + b * b) = a * a + 1 + b * b"
    using pos by simp
  then show ?thesis
    by (simp add: lengthSq_def add_divide_distrib)
qed

lemma hill_shape:
  "createHillTerrain c x z = (0, 0, 1, 0) \<or>
   (\<exists>y a b. createHillTerrain c x z =
      (y, - a / sqrt (a * a + 1 + b * b), 1 / sqrt (a * a + 1 + b * b),
       - b / sqrt (a * a + 1 + b * b)))"
  unfolding createHillTerrain_def Let_def
  by (simp only: split: if_split) blast

lemma hill_unit: "lengthSq (sampleNormal (createHillTerrain c x z)) = 1"
proof -
  consider "createHillTerrain c x z = (0, 0, 1, 0)"
    | y a b where "createHillTerrain c x z =
      (y, - a / sqrt (a * a + 1 + b * b), 1 / sqrt (a * a + 1 + b * b),
       - b / sqrt (a * a + 1 + b * b))"
    using hill_shape by blast
  then show ?thesis
  proof cases
    case 1
    then show ?thesis by (simp add: sampleNormal_def lengthSq_def)
  next
    case 2
    have pos: "a * a + 1 + b * b \<noteq> 0"
      by (smt (verit) zero_le_square)
    show ?thesis
      using unit_of_gradient [of "- a" a b "- b"] pos
      by (simp add: 2 sampleNormal_def)
  qed
qed

lemma combine_unit: "lengthSq (sampleNormal (combineTerrains ts x z)) = 1"
proof -
  obtain ty tnx tnz where l: "combineLoop ts x z (0, 0, 0) = (ty, tnx, tnz)"
    by (cases "combineLoop ts x z (0, 0, 0)") auto
  have pos: "tnx * tnx + 1 + tnz * tnz \<noteq> 0"
    by (smt (verit) zero_le_square)
  show ?thesis
    using unit_of_gradient [of tnx tnx tnz tnz] pos
    by (simp add: combineTerrains_def l sampleNormal_def Let_def)
qed

text \<open>
  C6. The normal of every sample has length 1 (squared length 1, in real arithmetic): for
  the flat field, for every hill with non-zero asymmetry components, and for the
  combination of any child fields.
\<close>

theorem normal_is_unit:
  "lengthSq (sampleNormal (createFlatTerrain x z)) = 1 \<and>
   (nonzeroAsymmetry c \<longrightarrow> lengthSq (sampleNormal (createHillTerrain c x z)) = 1) \<and>
   lengthSq (sampleNormal (combineTerrains terrains x z)) = 1"
proof (intro conjI impI)
  show "lengthSq (sampleNormal (createFlatTerrain x z)) = 1"
    by (simp add: createFlatTerrain_def sampleNormal_def lengthSq_def)
  show "lengthSq (sampleNormal (createHillTerrain c x z)) = 1"
    by (rule hill_unit)
  show "lengthSq (sampleNormal (combineTerrains terrains x z)) = 1"
    by (rule combine_unit)
qed

lemma getHeight_default:
  "getHeight DEFAULT_HILL px pz =
     (if 10 \<le> sqrt (px * px + pz * pz) then 0
      else 3 * (1 - sqrt (px * px + pz * pz) / 10) powr 2)"
  by (simp add: getHeight_def DEFAULT_HILL_fields Let_def)

lemma getHeight_default_x:
  assumes "0 \<le> px" "px < 10"
  shows "getHeight DEFAULT_HILL px 0 = 3 * (1 - px / 10) ^ 2"
  using assms by (simp add: getHeight_default)

lemma getHeight_default_z_even:
  "getHeight DEFAULT_HILL px (- pz) = getHeight DEFAULT_HILL px pz"
  by (simp add: getHeight_default)

text \<open>The default hill, half way up its slope.\<close>

lemma hill_default_5_0:
  "createHillTerrain DEFAULT_HILL 5 0 =
     (3 / 4, (3 / 10) / sqrt (109 / 100), 1 / sqrt (109 / 100), 0)"
proof -
  have a: "getHeight DEFAULT_HILL (501 / 100) 0 = 747003 / 1000000"
    using getHeight_default_x [of "501 / 100"] by (simp add: power2_eq_square)
  have b: "getHeight DEFAULT_HILL (499 / 100) 0 = 753003 / 1000000"
    using getHeight_default_x [of "499 / 100"] by (simp add: power2_eq_square)
  have c: "getHeight DEFAULT_HILL 5 (- (1 / 100)) = getHeight DEFAULT_HILL 5 (1 / 100)"
    by (rule getHeight_default_z_even)
  have e: "(5::real) * 5 = 25" by simp
  show ?thesis
    using sqrt_of_square_5 unfolding e
    by (simp add: createHillTerrain_def DEFAULT_HILL_fields Let_def a b c power2_eq_square)
qed

theorem normal_is_unit_witness:
  "lengthSq (sampleNormal (createFlatTerrain 5 0)) = 1 \<and>
   nonzeroAsymmetry DEFAULT_HILL \<and>
   sampleNormal (createHillTerrain DEFAULT_HILL 5 0)
     = ((3 / 10) / sqrt (109 / 100), 1 / sqrt (109 / 100), 0) \<and>
   lengthSq (sampleNormal (createHillTerrain DEFAULT_HILL 5 0)) = 1 \<and>
   lengthSq (sampleNormal (combineTerrains [createFlatTerrain, createHillTerrain DEFAULT_HILL] 5 0)) = 1"
proof -
  have wf: "nonzeroAsymmetry DEFAULT_HILL"
    by (simp add: nonzeroAsymmetry_def DEFAULT_HILL_fields)
  have n: "sampleNormal (createHillTerrain DEFAULT_HILL 5 0)
     = ((3 / 10) / sqrt (109 / 100), 1 / sqrt (109 / 100), 0)"
    by (simp add: hill_default_5_0 sampleNormal_def)
  show ?thesis
    using normal_is_unit [of 5 0 DEFAULT_HILL "[createFlatTerrain, createHillTerrain DEFAULT_HILL]"]
      wf n
    by simp
qed

lemma combine_single:
  "combineTerrains [f] x z =
     (case f x z of (y, nx, ny, nz) \<Rightarrow>
        (y, nx / sqrt (nx * nx + 1 + nz * nz), 1 / sqrt (nx * nx + 1 + nz * nz),
         nz / sqrt (nx * nx + 1 + nz * nz)))"
  by (cases "f x z") (simp add: combineTerrains_def Let_def)

lemma combine_hill_differs:
  "combineTerrains [createHillTerrain DEFAULT_HILL] 5 0 \<noteq> createHillTerrain DEFAULT_HILL 5 0"
proof
  let ?n = "(3 / 10) / sqrt (109 / 100) :: real"
  assume eq: "combineTerrains [createHillTerrain DEFAULT_HILL] 5 0 = createHillTerrain DEFAULT_HILL 5 0"
  have nn: "?n * ?n = 9 / 109"
  proof -
    have "?n * ?n = (9 / 100) / (sqrt (109 / 100) * sqrt (109 / 100))" by simp
    also have "\<dots> = (9 / 100) / (109 / 100)" by simp
    finally show ?thesis by simp
  qed
  from eq have "1 / sqrt (?n * ?n + 1 + 0 * 0) = 1 / sqrt (109 / 100)"
    by (simp add: combine_single hill_default_5_0)
  then have "sqrt (?n * ?n + 1 + 0 * 0) = sqrt (109 / 100)"
    by simp
  then have "?n * ?n + 1 + 0 * 0 = 109 / 100"
    by (simp only: real_sqrt_eq_iff)
  then show False unfolding nn by simp
qed

text \<open>
  A unit normal that points upwards but not straight up gets a larger \<open>y\<close> component: it is
  flattened towards the up axis.
\<close>

lemma combine_single_flattens:
  assumes unit: "nx * nx + ny * ny + nz * nz = 1" and "0 < ny" and "ny < 1"
  shows "ny < 1 / sqrt (nx * nx + 1 + nz * nz)"
proof -
  have e: "nx * nx + 1 + nz * nz = 2 - ny * ny" using unit by simp
  have "ny * ny < 1 * 1" using assms(2,3) by (intro mult_strict_mono) simp_all
  then have "ny * ny < 1" by simp
  then have pos: "0 < 2 - ny * ny" by simp
  have "0 < (1 - ny * ny) * (1 - ny * ny)" using \<open>ny * ny < 1\<close> by simp
  then have "(ny * ny) * (2 - ny * ny) < 1" by (simp add: algebra_simps)
  then have "ny * ny < 1 / (2 - ny * ny)" using pos by (simp add: pos_less_divide_eq)
  then have "sqrt (ny * ny) < sqrt (1 / (2 - ny * ny))" by (simp only: real_sqrt_less_iff)
  then have "ny < 1 / sqrt (2 - ny * ny)" using assms(2) by (simp add: real_sqrt_divide)
  then show ?thesis by (simp only: e)
qed

text \<open>
  C10. \<^verbatim>\<open>combineTerrains\<close> of a single field keeps the child's height exactly; its normal
  is \<open>normalize (nx, 1, nz)\<close>, built from the \<open>x\<close> and \<open>z\<close> components of the child's normal
  with 1 in place of the \<open>y\<close> component.  It is the identity on the flat field, and it is
  not the identity in general: on the slope of the default hill the result differs from
  the child's sample.
\<close>

theorem combine_single_field:
  "sampleHeight (combineTerrains [f] x z) = sampleHeight (f x z) \<and>
   sampleNormal (combineTerrains [f] x z) =
     (case sampleNormal (f x z) of (nx, ny, nz) \<Rightarrow>
        (nx / sqrt (nx * nx + 1 + nz * nz), 1 / sqrt (nx * nx + 1 + nz * nz),
         nz / sqrt (nx * nx + 1 + nz * nz))) \<and>
   combineTerrains [createFlatTerrain] x z = createFlatTerrain x z \<and>
   combineTerrains [createHillTerrain DEFAULT_HILL] 5 0 \<noteq> createHillTerrain DEFAULT_HILL 5 0"
proof -
  have "combineTerrains [createFlatTerrain] x z = createFlatTerrain x z"
    by (simp add: combine_single createFlatTerrain_def)
  then show ?thesis
    using combine_hill_differs
    by (cases "f x z") (simp add: combine_single sampleHeight_def sampleNormal_def)
qed

section \<open>Properties of the instance transform generator\<close>

lemma store_fold_length:
  "length (fold (\<lambda>k a. a[off + k := te ! k]) [0..<m] a) = length a"
  by (induction m) simp_all

lemma store_fold_nth:
  "j < length a \<Longrightarrow>
   fold (\<lambda>k a. a[off + k := te ! k]) [0..<m] a ! j =
     (if off \<le> j \<and> j < off + m then te ! (j - off) else a ! j)"
proof (induction m)
  case 0
  then show ?case by auto
next
  case (Suc m)
  show ?case
  proof (cases "j = off + m")
    case True
    then show ?thesis using Suc.prems by (simp add: store_fold_length)
  next
    case False
    then show ?thesis using Suc by (auto simp: store_fold_length)
  qed
qed

lemma toArray_length: "length (toArray te a off) = length a"
  by (simp add: toArray_def store_fold_length)

lemma toArray_nth:
  "j < length a \<Longrightarrow>
   toArray te a off ! j = (if off \<le> j \<and> j < off + 16 then te ! (j - off) else a ! j)"
  unfolding toArray_def by (rule store_fold_nth)

lemma compose_length: "length (compose p q s) = 16"
  by (cases p, cases q, cases s) (simp add: compose_def Let_def)

lemma bladeTransform_draws: "snd (bladeTransform hf sz bh rnd k) = k + 4"
  by (simp add: bladeTransform_def Math_random_def Let_def split: prod.splits)

lemma bladeMatrix_length: "length (bladeMatrix hf sz bh rnd i) = 16"
  by (simp add: bladeMatrix_def compose_length split: prod.splits)

text \<open>Pass \<open>i\<close> of the loop starts after \<open>4 * i\<close> draws and stores the matrix of blade \<open>i\<close>.\<close>

lemma instanceStep_eq:
  "instanceStep hf sz bh rnd i (m, 4 * i) =
     (toArray (bladeMatrix hf sz bh rnd i) m (i * 16), 4 * Suc i)"
proof -
  obtain t k' where bt: "bladeTransform hf sz bh rnd (4 * i) = (t, k')"
    by (cases "bladeTransform hf sz bh rnd (4 * i)")
  have "k' = 4 * i + 4" using bladeTransform_draws [of hf sz bh rnd "4 * i"] bt by simp
  then show ?thesis
    by (cases t) (simp add: instanceStep_def bt bladeMatrix_def blade_def)
qed

lemma instance_fold:
  "\<exists>m. fold (instanceStep hf sz bh rnd) [0..<n] (buf, 0) = (m, 4 * n) \<and>
       length m = length buf \<and>
       (\<forall>i<n. \<forall>j<16. i * 16 + j < length buf \<longrightarrow>
          m ! (i * 16 + j) = bladeMatrix hf sz bh rnd i ! j)"
proof (induction n)
  case 0
  show ?case by simp
next
  case (Suc n)
  then obtain m where m: "fold (instanceStep hf sz bh rnd) [0..<n] (buf, 0) = (m, 4 * n)"
    "length m = length buf"
    "\<forall>i<n. \<forall>j<16. i * 16 + j < length buf \<longrightarrow>
       m ! (i * 16 + j) = bladeMatrix hf sz bh rnd i ! j"
    by blast
  let ?m' = "toArray (bladeMatrix hf sz bh rnd n) m (n * 16)"
  have step: "fold (instanceStep hf sz bh rnd) [0..<Suc n] (buf, 0) = (?m', 4 * Suc n)"
    by (simp add: m(1) instanceStep_eq)
  have len: "length ?m' = length buf" by (simp add: toArray_length m(2))
  have blocks: "?m' ! (i * 16 + j) = bladeMatrix hf sz bh rnd i ! j"
    if "i < Suc n" "j < 16" "i * 16 + j < length buf" for i j
  proof (cases "i = n")
    case True
    then show ?thesis using that by (simp add: toArray_nth m(2))
  next
    case False
    with that have "i < n" by simp
    then have "i * 16 + j < n * 16" using that(2) by simp
    then show ?thesis using that m(3) \<open>i < n\<close> by (simp add: toArray_nth m(2))
  qed
  show ?case using step len blocks by blast
qed

lemma instanceMatrices_result:
  assumes "0 \<le> bladeCount"
  shows "\<exists>matrices. instanceMatrices bladeCount sz bh hf rnd = Inr matrices \<and>
           length matrices = nat bladeCount * 16 \<and>
           (\<forall>i < nat bladeCount.
              take 16 (drop (i * 16) matrices) = bladeMatrix hf sz bh rnd i)"
proof -
  let ?n = "nat bladeCount"
  let ?buf = "replicate (nat (bladeCount * 16)) (0::real)"
  have lb: "length ?buf = ?n * 16" using assms by (simp add: nat_mult_distrib)
  obtain m where m: "fold (instanceStep hf sz bh rnd) [0..<?n] (?buf, 0) = (m, 4 * ?n)"
    "length m = length ?buf"
    "\<forall>i<?n. \<forall>j<16. i * 16 + j < length ?buf \<longrightarrow>
       m ! (i * 16 + j) = bladeMatrix hf sz bh rnd i ! j"
    using instance_fold [of hf sz bh rnd ?n ?buf] by blast
  have res: "instanceMatrices bladeCount sz bh hf rnd = Inr m"
    using assms by (simp add: instanceMatrices_def m(1))
  have lm: "length m = ?n * 16" using m(2) lb by simp
  have blk: "take 16 (drop (i * 16) m) = bladeMatrix hf sz bh rnd i" if "i < ?n" for i
  proof (rule nth_equalityI)
    have "i * 16 + 16 \<le> ?n * 16" using that by simp
    then show "length (take 16 (drop (i * 16) m)) = length (bladeMatrix hf sz bh rnd i)"
      using lm by (simp add: bladeMatrix_length)
  next
    fix j assume "j < length (take 16 (drop (i * 16) m))"
    then have j: "j < 16" by simp
    have "i * 16 + 16 \<le> ?n * 16" using that by simp
    then have in_range: "i * 16 + j < length ?buf" using j lb by simp
    then show "take 16 (drop (i * 16) m) ! j = bladeMatrix hf sz bh rnd i ! j"
      using m(3) that j m(2) by simp
  qed
  show ?thesis using res lm blk by blast
qed

lemma centred_draw_bounds:
  fixes r w :: real
  assumes "0 \<le> r" "r < 1" "0 \<le> w"
  shows "- w / 2 \<le> (r - 1 / 2) * w" "(r - 1 / 2) * w \<le> w / 2"
proof -
  have "(- 1 / 2) * w \<le> (r - 1 / 2) * w"
    using assms by (intro mult_right_mono) simp_all
  then show "- w / 2 \<le> (r - 1 / 2) * w" by simp
  have "(r - 1 / 2) * w \<le> (1 / 2) * w"
    using assms by (intro mult_right_mono) simp_all
  then show "(r - 1 / 2) * w \<le> w / 2" by simp
qed

lemma range_draw_bounds:
  fixes r lo hi :: real
  assumes "0 \<le> r" "r < 1" "lo \<le> hi"
  shows "lo \<le> lo + r * (hi - lo)" "lo + r * (hi - lo) \<le> hi"
proof -
  have "0 \<le> r * (hi - lo)" using assms by simp
  then show "lo \<le> lo + r * (hi - lo)" by simp
  have "r * (hi - lo) \<le> 1 * (hi - lo)"
    using assms by (intro mult_right_mono) simp_all
  then show "lo + r * (hi - lo) \<le> hi" by simp
qed

text \<open>The position and the scale that \<^verbatim>\<open>matrix.compose\<close> receives for blade \<open>i\<close>.\<close>

lemma blade_shape:
  "blade hf sz bh rnd i =
     (((rnd (4 * i) - 1 / 2) * fst sz,
       sampleHeight (hf ((rnd (4 * i) - 1 / 2) * fst sz) ((rnd (4 * i + 1) - 1 / 2) * snd sz)),
       (rnd (4 * i + 1) - 1 / 2) * snd sz),
      fst (snd (blade hf sz bh rnd i)),
      (1, fst bh + rnd (4 * i + 2) * (snd bh - fst bh), 1))"
  by (simp add: blade_def bladeTransform_def Math_random_def Let_def sampleHeight_def
      split: prod.splits)

lemma blade_bounds:
  assumes rnd: "\<forall>k. 0 \<le> rnd k \<and> rnd k < 1"
    and sz: "0 < fst sz" "0 < snd sz" and bh: "fst bh \<le> snd bh"
  shows "case blade hf sz bh rnd i of
           ((x, y, z), q, (sx, sy, sz')) \<Rightarrow>
             - fst sz / 2 \<le> x \<and> x \<le> fst sz / 2 \<and>
             - snd sz / 2 \<le> z \<and> z \<le> snd sz / 2 \<and>
             y = sampleHeight (hf x z) \<and>
             sx = 1 \<and> fst bh \<le> sy \<and> sy \<le> snd bh \<and> sz' = 1"
proof -
  have r: "0 \<le> rnd (4 * i)" "rnd (4 * i) < 1" "0 \<le> rnd (4 * i + 1)" "rnd (4 * i + 1) < 1"
    "0 \<le> rnd (4 * i + 2)" "rnd (4 * i + 2) < 1"
    using rnd by simp_all
  have w: "0 \<le> fst sz" "0 \<le> snd sz" using sz by simp_all
  show ?thesis
    apply (subst blade_shape)
    using centred_draw_bounds [OF r(1,2) w(1)] centred_draw_bounds [OF r(3,4) w(2)]
      range_draw_bounds [OF r(5,6) bh]
    by simp
qed

lemma bladeMatrix_position:
  "bladeMatrix hf sz bh rnd i ! 12 = fst (fst (blade hf sz bh rnd i))"
  "bladeMatrix hf sz bh rnd i ! 13 = fst (snd (fst (blade hf sz bh rnd i)))"
  "bladeMatrix hf sz bh rnd i ! 14 = snd (snd (fst (blade hf sz bh rnd i)))"
  by (simp_all add: bladeMatrix_def compose_def Let_def split: prod.splits)

text \<open>
  C2. For a blade count \<open>N \<ge> 0\<close>, an area of positive width and depth and a height range
  with \<open>hMin \<le> hMax\<close>, and draws of \<^verbatim>\<open>Math.random()\<close> in \<open>[0, 1)\<close>: the generator returns a
  buffer of exactly \<open>N\<close> transforms (sixteen numbers each; the empty buffer for \<open>N = 0\<close>);
  transform \<open>i\<close> is the matrix composed from the position, orientation and scale of blade
  \<open>i\<close>; its ground position lies in \<open>[-width/2, width/2] \<times> [-depth/2, depth/2]\<close>, its
  height is the sampled height there, and its scale is \<open>(1, scaleY, 1)\<close> with \<open>scaleY\<close> in
  \<open>[hMin, hMax]\<close>.
\<close>

theorem instance_transforms_count_and_bounds:
  assumes "\<forall>k. 0 \<le> rnd k \<and> rnd k < 1"
    and "0 \<le> bladeCount"
    and "0 < fst area" and "0 < snd area"
    and "fst bladeHeight \<le> snd bladeHeight"
  shows "\<exists>matrices.
           instanceMatrices bladeCount area bladeHeight heightFunction rnd = Inr matrices \<and>
           length matrices = nat bladeCount * 16 \<and>
           (bladeCount = 0 \<longrightarrow> matrices = []) \<and>
           (\<forall>i < nat bladeCount.
              take 16 (drop (i * 16) matrices) = bladeMatrix heightFunction area bladeHeight rnd i \<and>
              (case blade heightFunction area bladeHeight rnd i of
                 ((x, y, z), q, (sx, sy, sz)) \<Rightarrow>
                   - fst area / 2 \<le> x \<and> x \<le> fst area / 2 \<and>
                   - snd area / 2 \<le> z \<and> z \<le> snd area / 2 \<and>
                   y = sampleHeight (heightFunction x z) \<and>
                   sx = 1 \<and> fst bladeHeight \<le> sy \<and> sy \<le> snd bladeHeight \<and> sz = 1 \<and>
                   matrices ! (i * 16 + 12) = x \<and>
                   matrices ! (i * 16 + 13) = y \<and>
                   matrices ! (i * 16 + 14) = z))"
proof -
  obtain m where m: "instanceMatrices bladeCount area bladeHeight heightFunction rnd = Inr m"
    "length m = nat bladeCount * 16"
    "\<forall>i < nat bladeCount.
       take 16 (drop (i * 16) m) = bladeMatrix heightFunction area bladeHeight rnd i"
    using instanceMatrices_result [OF assms(2)] by blast
  have empty: "bladeCount = 0 \<longrightarrow> m = []" using m(2) by auto
  have each: "take 16 (drop (i * 16) m) = bladeMatrix heightFunction area bladeHeight rnd i \<and>
      (case blade heightFunction area bladeHeight rnd i of
         ((x, y, z), q, (sx, sy, sz)) \<Rightarrow>
           - fst area / 2 \<le> x \<and> x \<le> fst area / 2 \<and>
           - snd area / 2 \<le> z \<and> z \<le> snd area / 2 \<and>
           y = sampleHeight (heightFunction x z) \<and>
           sx = 1 \<and> fst bladeHeight \<le> sy \<and> sy \<le> snd bladeHeight \<and> sz = 1 \<and>
           m ! (i * 16 + 12) = x \<and> m ! (i * 16 + 13) = y \<and> m ! (i * 16 + 14) = z)"
    if i: "i < nat bladeCount" for i
  proof -
    have blk: "take 16 (drop (i * 16) m) = bladeMatrix heightFunction area bladeHeight rnd i"
      using m(3) i by blast
    have "i * 16 + 16 \<le> nat bladeCount * 16" using i by simp
    then have le: "i * 16 + 16 \<le> length m" using m(2) by simp
    have nth: "m ! (i * 16 + j) = bladeMatrix heightFunction area bladeHeight rnd i ! j"
      if "j < 16" for j
    proof -
      have "take 16 (drop (i * 16) m) ! j = m ! (i * 16 + j)"
        using that le by simp
      then show ?thesis using blk by simp
    qed
    have pos: "m ! (i * 16 + 12) = fst (fst (blade heightFunction area bladeHeight rnd i))"
      "m ! (i * 16 + 13) = fst (snd (fst (blade heightFunction area bladeHeight rnd i)))"
      "m ! (i * 16 + 14) = snd (snd (fst (blade heightFunction area bladeHeight rnd i)))"
      using nth [of 12] nth [of 13] nth [of 14] by (simp_all add: bladeMatrix_position)
    show ?thesis
      using blk pos blade_bounds [OF assms(1) assms(3) assms(4) assms(5), of heightFunction i]
      by (auto split: prod.splits)
  qed
  show ?thesis using m(1) m(2) empty each by blast
qed

text \<open>
  The scenario of the specification (flat field, area \<open>(10, 10)\<close>, 100 blades), the empty
  buffer for a count of 0, and the one transform that a single blade gets when every draw
  is 0: the corner \<open>(-5, 0, -5)\<close>, no rotation, and the smallest height \<open>3/10\<close>.
\<close>

theorem instance_transforms_count_and_bounds_witness:
  "(\<exists>matrices. instanceMatrices 100 (10, 10) (3 / 10, 4 / 5) createFlatTerrain (\<lambda>k. 0)
       = Inr matrices \<and> length matrices = 1600) \<and>
   instanceMatrices 0 (10, 10) (3 / 10, 4 / 5) createFlatTerrain (\<lambda>k. 0) = Inr [] \<and>
   instanceMatrices 1 (10, 10) (3 / 10, 4 / 5) createFlatTerrain (\<lambda>k. 0)
     = Inr [1, 0, 0, 0, 0, 3 / 10, 0, 0, 0, 0, 1, 0, - 5, 0, - 5, 1]"
proof -
  let ?gen = "\<lambda>n. instanceMatrices n (10, 10) (3 / 10, 4 / 5) createFlatTerrain (\<lambda>k. 0)"
  have rnd: "\<forall>k::nat. (0::real) \<le> 0 \<and> (0::real) < 1" by simp
  have t: "\<exists>matrices. ?gen n = Inr matrices \<and> length matrices = nat n * 16 \<and>
             (n = 0 \<longrightarrow> matrices = []) \<and>
             (\<forall>i < nat n. take 16 (drop (i * 16) matrices)
                = bladeMatrix createFlatTerrain (10, 10) (3 / 10, 4 / 5) (\<lambda>k. 0) i)"
    if "0 \<le> n" for n
    using instance_transforms_count_and_bounds
      [of "\<lambda>k. 0" n "(10, 10)" "(3 / 10, 4 / 5)" createFlatTerrain] that
    by (simp add: rnd) blast
  have hundred: "\<exists>matrices. ?gen 100 = Inr matrices \<and> length matrices = 1600"
    using t [of 100] by auto
  have none: "?gen 0 = Inr []"
    using t [of 0] by auto
  have bm: "bladeMatrix createFlatTerrain (10, 10) (3 / 10, 4 / 5) (\<lambda>k. 0) 0
      = [1, 0, 0, 0, 0, 3 / 10, 0, 0, 0, 0, 1, 0, - 5, 0, - 5, 1]"
    by (simp add: bladeMatrix_def blade_def bladeTransform_def Math_random_def Let_def
        createFlatTerrain_def alignNormal_def Vector3_normalize_def Vector3_length_def
        lengthSq_def divideScalar_def multiplyScalar_def setFromUnitVectors_def
        Number_EPSILON_def Quaternion_normalize_def setFromAxisAngle_def
        Quaternion_multiply_def compose_def)
  obtain m where m: "?gen 1 = Inr m" "length m = 16"
    "take 16 (drop 0 m) = bladeMatrix createFlatTerrain (10, 10) (3 / 10, 4 / 5) (\<lambda>k. 0) 0"
    using t [of 1] by auto
  have "m = [1, 0, 0, 0, 0, 3 / 10, 0, 0, 0, 0, 1, 0, - 5, 0, - 5, 1]"
    using m(2,3) by (simp add: bm)
  then show ?thesis using hundred none m(1) by simp
qed

lemma alignNormal_zero: "alignNormal 0 0 0 = (0, 1, 0)"
  by (simp add: alignNormal_def Vector3_normalize_def Vector3_length_def lengthSq_def
      divideScalar_def multiplyScalar_def Let_def)

lemma blade_orientation:
  "fst (snd (blade hf sz bh rnd i)) =
     (case sampleNormal (hf ((rnd (4 * i) - 1 / 2) * fst sz) ((rnd (4 * i + 1) - 1 / 2) * snd sz)) of
        (nx, ny, nz) \<Rightarrow>
          Quaternion_multiply (setFromUnitVectors (0, 1, 0) (alignNormal nx ny nz))
            (setFromAxisAngle (alignNormal nx ny nz) (rnd (4 * i + 3) * pi * 2)))"
  by (simp add: blade_def bladeTransform_def Math_random_def Let_def sampleNormal_def
      numeral_3_eq_3 split: prod.splits)

lemma alignNormal_degenerate:
  assumes "lengthSq (Vector3_normalize (nx, ny, nz)) < 1 / 1000"
  shows "alignNormal nx ny nz = (0, 1, 0)"
  using assms by (simp add: alignNormal_def Let_def)

lemma normalize_zero: "Vector3_normalize (0, 0, 0) = (0, 0, 0)"
  by (simp add: Vector3_normalize_def Vector3_length_def lengthSq_def divideScalar_def
      multiplyScalar_def)

text \<open>
  C7. Whenever the sampled normal is degenerate, the generator substitutes the up axis
  \<open>(0, 1, 0)\<close> for it before it computes the alignment orientation, and no error is
  signalled.  Degenerate is what the code tests: the squared length is still below
  \<open>0.001\<close> after \<^verbatim>\<open>normalize()\<close>, as it is for the normal of zero length, which
  \<^verbatim>\<open>normalize()\<close> leaves as it is.  For a blade count \<open>\<ge> 0\<close> the generator returns a
  buffer, not an error.  (Height sampling has no error result at all: a height field is a
  total function.)
\<close>

theorem zero_normal_substituted:
  "(lengthSq (Vector3_normalize
       (sampleNormal (heightFunction ((rnd (4 * i) - 1 / 2) * fst area)
                                     ((rnd (4 * i + 1) - 1 / 2) * snd area)))) < 1 / 1000 \<longrightarrow>
      fst (snd (blade heightFunction area bladeHeight rnd i)) =
        Quaternion_multiply (setFromUnitVectors (0, 1, 0) (0, 1, 0))
          (setFromAxisAngle (0, 1, 0) (rnd (4 * i + 3) * pi * 2))) \<and>
   (sampleNormal (heightFunction ((rnd (4 * i) - 1 / 2) * fst area)
                                 ((rnd (4 * i + 1) - 1 / 2) * snd area)) = (0, 0, 0) \<longrightarrow>
      fst (snd (blade heightFunction area bladeHeight rnd i)) =
        Quaternion_multiply (setFromUnitVectors (0, 1, 0) (0, 1, 0))
          (setFromAxisAngle (0, 1, 0) (rnd (4 * i + 3) * pi * 2))) \<and>
   (0 \<le> bladeCount \<longrightarrow>
      (\<exists>matrices. instanceMatrices bladeCount area bladeHeight heightFunction rnd = Inr matrices))"
proof (intro conjI impI)
  let ?n = "sampleNormal (heightFunction ((rnd (4 * i) - 1 / 2) * fst area)
                                 ((rnd (4 * i + 1) - 1 / 2) * snd area))"
  assume d: "lengthSq (Vector3_normalize ?n) < 1 / 1000"
  obtain nx ny nz where n: "?n = (nx, ny, nz)" by (cases ?n) auto
  have up: "alignNormal nx ny nz = (0, 1, 0)"
    using d unfolding n by (rule alignNormal_degenerate)
  have "fst (snd (blade heightFunction area bladeHeight rnd i)) =
        Quaternion_multiply (setFromUnitVectors (0, 1, 0) (alignNormal nx ny nz))
          (setFromAxisAngle (alignNormal nx ny nz) (rnd (4 * i + 3) * pi * 2))"
    unfolding blade_orientation n by (simp only: prod.case)
  then show "fst (snd (blade heightFunction area bladeHeight rnd i)) =
        Quaternion_multiply (setFromUnitVectors (0, 1, 0) (0, 1, 0))
          (setFromAxisAngle (0, 1, 0) (rnd (4 * i + 3) * pi * 2))"
    by (simp only: up)
next
  assume "sampleNormal (heightFunction ((rnd (4 * i) - 1 / 2) * fst area)
                                 ((rnd (4 * i + 1) - 1 / 2) * snd area)) = (0, 0, 0)"
  then show "fst (snd (blade heightFunction area bladeHeight rnd i)) =
        Quaternion_multiply (setFromUnitVectors (0, 1, 0) (0, 1, 0))
          (setFromAxisAngle (0, 1, 0) (rnd (4 * i + 3) * pi * 2))"
    by (simp add: blade_orientation alignNormal_zero)
next
  assume "0 \<le> bladeCount"
  then show "\<exists>matrices. instanceMatrices bladeCount area bladeHeight heightFunction rnd = Inr matrices"
    using instanceMatrices_result by blast
qed

text \<open>
  A height function whose normal is the zero vector everywhere: the normal stays zero
  under \<^verbatim>\<open>normalize()\<close>, the blade gets the orientation of the up axis (no rotation, as the
  yaw drawn is 0), and the buffer of one blade is returned.
\<close>

theorem zero_normal_substituted_witness:
  "sampleNormal (zeroNormalField (- 5) (- 5)) = (0, 0, 0) \<and>
   lengthSq (Vector3_normalize (sampleNormal (zeroNormalField (- 5) (- 5)))) < 1 / 1000 \<and>
   fst (snd (blade zeroNormalField (10, 10) (1, 1) (\<lambda>k. 0) 0)) = (0, 0, 0, 1) \<and>
   (\<exists>matrices. instanceMatrices 1 (10, 10) (1, 1) zeroNormalField (\<lambda>k. 0) = Inr matrices)"
proof -
  have z: "sampleNormal (zeroNormalField x z) = (0, 0, 0)" for x z
    by (simp add: zeroNormalField_def sampleNormal_def)
  have d: "lengthSq (Vector3_normalize (0, 0, 0)) < 1 / 1000"
    by (simp add: normalize_zero lengthSq_def)
  have q: "Quaternion_multiply (setFromUnitVectors (0, 1, 0) (0, 1, 0))
          (setFromAxisAngle (0, 1, 0) 0) = (0, 0, 0, 1)"
    by (simp add: setFromUnitVectors_def Number_EPSILON_def Quaternion_normalize_def
        setFromAxisAngle_def Quaternion_multiply_def Let_def)
  have "fst (snd (blade zeroNormalField (10, 10) (1, 1) (\<lambda>k. 0) 0)) = (0, 0, 0, 1) \<and>
        (\<exists>matrices. instanceMatrices 1 (10, 10) (1, 1) zeroNormalField (\<lambda>k. 0) = Inr matrices)"
    using zero_normal_substituted [of zeroNormalField "\<lambda>k. 0" 0 "(10, 10)" "(1, 1)" 1] d
    by (simp add: z q)
  then show ?thesis using d by (simp add: z)
qed

section \<open>Properties of the terrain mesh builder\<close>

text \<open>
  In the frame of the geometry, the third coordinate of every vertex is the height of the
  field at its first two coordinates; the normal of the height field is not used, and the
  normals are those that \<^verbatim>\<open>computeVertexNormals\<close> derives from the final positions.
\<close>

lemma geometry_vertex:
  assumes "v \<in> set (positions (terrainGeometry cvn sz hf n))"
  shows "snd (snd v) = sampleHeight (hf (fst v) (fst (snd v)))"
  using assms
  by (auto simp: terrainGeometry_def Let_def sampleHeight_def split: prod.splits)

lemma geometry_normals:
  "normals (terrainGeometry cvn sz hf n) = cvn (positions (terrainGeometry cvn sz hf n))"
  by (simp add: terrainGeometry_def Let_def)

lemma geometry_ignores_field_normal:
  assumes "\<forall>x z. sampleHeight (hf x z) = sampleHeight (hf' x z)"
  shows "terrainGeometry cvn sz hf n = terrainGeometry cvn sz hf' n"
proof -
  have "(case hf x z of (hgt, _) \<Rightarrow> (x, z, hgt)) = (case hf' x z of (hgt, _) \<Rightarrow> (x, z, hgt))"
    for x z
    using assms by (simp add: sampleHeight_def split: prod.splits) (metis fst_conv)
  then show ?thesis by (simp add: terrainGeometry_def Let_def)
qed

text \<open>
  The mesh is mounted rotated by \<open>- \<pi> / 2\<close> about the x axis, which sends the second
  coordinate \<open>z'\<close> of the geometry to the ground coordinate \<open>- z'\<close>: a vertex of the mounted
  mesh at ground coordinates \<open>(X, Z)\<close> has the height of the field at \<open>(X, - Z)\<close>.
\<close>

lemma rendered_vertex:
  assumes "v \<in> set (terrainMeshVertices cvn sz hf n)"
  shows "fst (snd v) = sampleHeight (hf (fst v) (- snd (snd v)))"
  using assms
  by (auto simp: terrainMeshVertices_def terrainGeometry_def Let_def rotateX_def sampleHeight_def
      split: prod.splits)

lemma plane_vertex_7: "PlaneGeometry_vertices 20 20 4 4 ! 7 = (0, 5, 0)"
  by (simp add: PlaneGeometry_vertices_def Let_def upt_rec nth_append)

lemma plane_vertices_25: "length (PlaneGeometry_vertices 20 20 4 4) = 25"
  by (simp add: PlaneGeometry_vertices_def Let_def upt_rec)

lemma hill_z5_fields:
  "centerX hill_z5 = 0" "centerZ hill_z5 = 5" "radius hill_z5 = 3" "skirt hill_z5 = 0"
  "height hill_z5 = 3" "asymmetry hill_z5 = (1, 1)" "rotation hill_z5 = 0"
  by (simp_all add: hill_z5_def DEFAULT_HILL_fields)

text \<open>
  C5 asks that the height of every vertex of the terrain mesh be the height of the field at
  the ground coordinates of that vertex, with normals recomputed from the final geometry.
  The normals are (lemma \<open>geometry_normals\<close>), but the heights are those of the mirrored
  field (lemma \<open>rendered_vertex\<close>).  Here is a hill that is not symmetric in \<open>z\<close>: radius 3
  and height 3, centred at \<open>(0, 5)\<close>, on an area of \<open>20 \<times> 20\<close> with 4 segments.  Grid vertex 7 is sampled at the
  centre of the hill and gets height 3, but the mounted mesh shows it at the ground
  coordinates \<open>(0, -5)\<close>, where the height field is 0; a blade at \<open>(0, -5)\<close> is placed at
  height 0 and a blade at \<open>(0, 5)\<close> at height 3.
\<close>

theorem terrain_mesh_mirrored_in_z:
  "terrainMeshVertices computeVertexNormals (20, 20) (createHillTerrain hill_z5) 4 ! 7
     = (0, 3, - 5) \<and>
   sampleHeight (createHillTerrain hill_z5 0 (- 5)) = 0 \<and>
   sampleHeight (createHillTerrain hill_z5 0 5) = 3"
proof -
  have centre: "createHillTerrain hill_z5 0 5 = (3, 0, 1, 0)"
    using hill_centre [of hill_z5] by (simp add: hill_z5_fields)
  have "hillDist hill_z5 0 (- 5) = 10"
    using sqrt_of_square_10 by (simp add: hillDist_def hill_z5_fields Let_def)
  then have far: "createHillTerrain hill_z5 0 (- 5) = (0, 0, 1, 0)"
    by (intro hill_flat) (simp add: hill_z5_fields)
  have "terrainMeshVertices computeVertexNormals (20, 20) (createHillTerrain hill_z5) 4 ! 7
     = rotateX (- pi / 2) (0, 5, 3)"
    using plane_vertex_7 plane_vertices_25
    by (simp add: terrainMeshVertices_def terrainGeometry_def Let_def centre)
  then show ?thesis
    by (simp add: rotateX_def centre far sampleHeight_def)
qed

section \<open>Properties of the wind animation\<close>

text \<open>
  C8. For every wind configuration, elapsed time, instance matrix (hence world position)
  and blade vertex at height 0 along the blade, the shader leaves the vertex where it is:
  the wind displacement is exactly 0 in both horizontal components.
\<close>

theorem wind_root_pinned:
  "vertexShader_pos u instanceMatrix (px, 0, pz) = (px, 0, pz) \<and>
   windDisplacement u instanceMatrix (px, 0, pz) = (0, 0, 0)"
proof -
  have "vertexShader_pos u instanceMatrix (px, 0, pz) = (px, 0, pz)"
    by (simp add: vertexShader_pos_def Let_def split: prod.splits)
  then show ?thesis by (simp add: windDisplacement_def zip3_def)
qed

text \<open>
  C9, as the specification states it, fails for the time that drives \<^verbatim>\<open>uTime\<close>: the
  component is mounted, a frame is rendered at clock time 100, the component is remounted,
  and the first frame after the remount, at clock time 101, sets \<^verbatim>\<open>uTime\<close> to 101 --- the
  elapsed time of the renderer's clock, not a time that started from 0 at the remount.
\<close>

theorem wind_time_counterexample:
  "map_option uTime (grassRun [Mount DEFAULT_WIND ''#1a5f2a'' ''#4ade80'', Frame 100, Unmount,
      Mount DEFAULT_WIND ''#1a5f2a'' ''#4ade80'']) = Some 0 \<and>
   map_option uTime (grassRun [Mount DEFAULT_WIND ''#1a5f2a'' ''#4ade80'', Frame 100, Unmount,
      Mount DEFAULT_WIND ''#1a5f2a'' ''#4ade80'', Frame 101]) = Some 101"
  by (simp add: grassRun_def createMaterial_def animateWind_def)

text \<open>
  C9, amended.  The wind time is not persisted: unmounting drops the material, and every
  mount or remount builds a material with \<^verbatim>\<open>uTime = 0\<close>, whatever the state was before.
  The first per-frame advance after a mount then sets \<^verbatim>\<open>uTime\<close> to the elapsed time of the
  renderer's clock that the frame callback receives.
\<close>

theorem wind_time_reset_on_mount:
  "grassStep s Unmount = None \<and>
   map_option uTime (grassStep s (Mount windConfig baseColor tipColor)) = Some 0 \<and>
   map_option uTime
     (grassStep (grassStep s (Mount windConfig baseColor tipColor)) (Frame elapsedTime))
     = Some elapsedTime"
  by (simp add: createMaterial_def animateWind_def)

end
